theory Spec2Isabelle
  imports Main
begin

section \<open>The PDFium binding header \<^verbatim>\<open>Vendor/PDFium/include/fpdfview.h\<close>\<close>

text \<open>
  The header consists of declarations only: four type aliases, sixteen function
  prototypes and two anonymous enumerations. No function has a body in this
  repository. The declarations are embedded as data (C types, prototypes, enumerator
  lists) together with the two rules of C that give them a meaning: how an
  enumeration assigns values to its enumerators, and which integers a C integer
  type represents under a given data model.
\<close>

subsection \<open>C types and type aliases\<close>

datatype c_type =
    CVoid
  | CChar
  | CInt
  | CUnsignedInt
  | CUnsignedLong
  | CFloat
  | CSizeT
  | CConst c_type
  | CPointer c_type
  | CTypedef string

text \<open>
  \<^verbatim>\<open>typedef const char* FPDF_BYTESTRING;\<close>
  \<^verbatim>\<open>typedef void* FPDF_DOCUMENT;\<close>
  \<^verbatim>\<open>typedef void* FPDF_PAGE;\<close>
  \<^verbatim>\<open>typedef void* FPDF_BITMAP;\<close>
\<close>

definition typedefs :: "(string \<times> c_type) list" where
  "typedefs =
     [(''FPDF_BYTESTRING'', CPointer (CConst CChar)),
      (''FPDF_DOCUMENT'', CPointer CVoid),
      (''FPDF_PAGE'', CPointer CVoid),
      (''FPDF_BITMAP'', CPointer CVoid)]"

text \<open>Qualifiers do not change the values of a type; an alias stands for its definition.\<close>

fun strip_const :: "c_type \<Rightarrow> c_type" where
  "strip_const (CConst t) = strip_const t"
| "strip_const t = t"

definition resolve :: "c_type \<Rightarrow> c_type" where
  "resolve t =
     (case strip_const t of
        CTypedef n \<Rightarrow> (case map_of typedefs n of Some u \<Rightarrow> strip_const u | None \<Rightarrow> CTypedef n)
      | u \<Rightarrow> u)"

subsection \<open>Function prototypes\<close>

record prototype =
  ret :: c_type
  fname :: string
  params :: "(c_type \<times> string) list"

definition fpdfview_prototypes :: "prototype list" where
  "fpdfview_prototypes =
     [\<lparr>ret = CVoid, fname = ''FPDF_InitLibrary'', params = []\<rparr>,
      \<lparr>ret = CVoid, fname = ''FPDF_DestroyLibrary'', params = []\<rparr>,
      \<lparr>ret = CTypedef ''FPDF_DOCUMENT'', fname = ''FPDF_LoadMemDocument64'',
       params = [(CPointer (CConst CVoid), ''data_buf''), (CSizeT, ''size''),
                 (CTypedef ''FPDF_BYTESTRING'', ''password'')]\<rparr>,
      \<lparr>ret = CVoid, fname = ''FPDF_CloseDocument'',
       params = [(CTypedef ''FPDF_DOCUMENT'', ''document'')]\<rparr>,
      \<lparr>ret = CInt, fname = ''FPDF_GetPageCount'',
       params = [(CTypedef ''FPDF_DOCUMENT'', ''document'')]\<rparr>,
      \<lparr>ret = CTypedef ''FPDF_PAGE'', fname = ''FPDF_LoadPage'',
       params = [(CTypedef ''FPDF_DOCUMENT'', ''document''), (CInt, ''page_index'')]\<rparr>,
      \<lparr>ret = CVoid, fname = ''FPDF_ClosePage'',
       params = [(CTypedef ''FPDF_PAGE'', ''page'')]\<rparr>,
      \<lparr>ret = CFloat, fname = ''FPDF_GetPageWidthF'',
       params = [(CTypedef ''FPDF_PAGE'', ''page'')]\<rparr>,
      \<lparr>ret = CFloat, fname = ''FPDF_GetPageHeightF'',
       params = [(CTypedef ''FPDF_PAGE'', ''page'')]\<rparr>,
      \<lparr>ret = CUnsignedLong, fname = ''FPDF_GetLastError'', params = []\<rparr>,
      \<lparr>ret = CTypedef ''FPDF_BITMAP'', fname = ''FPDFBitmap_CreateEx'',
       params = [(CInt, ''width''), (CInt, ''height''), (CInt, ''format''),
                 (CPointer CVoid, ''first_scan''), (CInt, ''stride'')]\<rparr>,
      \<lparr>ret = CVoid, fname = ''FPDFBitmap_Destroy'',
       params = [(CTypedef ''FPDF_BITMAP'', ''bitmap'')]\<rparr>,
      \<lparr>ret = CPointer CVoid, fname = ''FPDFBitmap_GetBuffer'',
       params = [(CTypedef ''FPDF_BITMAP'', ''bitmap'')]\<rparr>,
      \<lparr>ret = CInt, fname = ''FPDFBitmap_GetStride'',
       params = [(CTypedef ''FPDF_BITMAP'', ''bitmap'')]\<rparr>,
      \<lparr>ret = CVoid, fname = ''FPDFBitmap_FillRect'',
       params = [(CTypedef ''FPDF_BITMAP'', ''bitmap''), (CInt, ''left''), (CInt, ''top''),
                 (CInt, ''width''), (CInt, ''height''), (CUnsignedInt, ''color'')]\<rparr>,
      \<lparr>ret = CVoid, fname = ''FPDF_RenderPageBitmap'',
       params = [(CTypedef ''FPDF_BITMAP'', ''bitmap''), (CTypedef ''FPDF_PAGE'', ''page''),
                 (CInt, ''start_x''), (CInt, ''start_y''), (CInt, ''size_x''),
                 (CInt, ''size_y''), (CInt, ''rotate''), (CInt, ''flags'')]\<rparr>]"

definition find_prototype :: "string \<Rightarrow> prototype option" where
  "find_prototype f = find (\<lambda>p. fname p = f) fpdfview_prototypes"

definition return_type :: "string \<Rightarrow> c_type option" where
  "return_type f = map_option (\<lambda>p. resolve (ret p)) (find_prototype f)"

definition param_type :: "string \<Rightarrow> string \<Rightarrow> c_type option" where
  "param_type f x =
     (case find_prototype f of
        None \<Rightarrow> None
      | Some p \<Rightarrow> map_option (\<lambda>(t, _). resolve t) (find (\<lambda>(_, n). n = x) (params p)))"

subsection \<open>Enumerations\<close>

text \<open>
  An enumerator list as written: each name with its explicit value, if it has one.
  C gives an enumerator without a value the previous value plus one, and zero to the
  first; an explicit value restarts the count.
\<close>

type_synonym enum_decl = "(string \<times> int option) list"

fun enum_elab :: "int \<Rightarrow> enum_decl \<Rightarrow> (string \<times> int) list" where
  "enum_elab nxt [] = []"
| "enum_elab nxt ((n, None) # ds) = (n, nxt) # enum_elab (nxt + 1) ds"
| "enum_elab nxt ((n, Some v) # ds) = (n, v) # enum_elab (v + 1) ds"

definition enumerators :: "enum_decl \<Rightarrow> (string \<times> int) list" where
  "enumerators d = enum_elab 0 d"

definition enum_value :: "enum_decl \<Rightarrow> string \<Rightarrow> int option" where
  "enum_value d n = map_of (enumerators d) n"

text \<open>The first enumeration of the header: the pixel formats.\<close>

definition bitmap_format_enum :: enum_decl where
  "bitmap_format_enum =
     [(''FPDFBitmap_Unknown'', Some 0),
      (''FPDFBitmap_Gray'', Some 1),
      (''FPDFBitmap_BGR'', Some 2),
      (''FPDFBitmap_BGRx'', Some 3),
      (''FPDFBitmap_BGRA'', Some 4)]"

text \<open>The second enumeration of the header: the render flags.\<close>

definition render_flag_enum :: enum_decl where
  "render_flag_enum = [(''FPDF_ANNOT'', Some 0x01)]"

text \<open>
  The pixel formats as the specification lists them, a closed enumeration with the
  codes it gives: Unknown=0, Gray=1, BGR=2, BGRx=3, BGRA=4.
\<close>

datatype spec_pixel_format = Unknown | Gray | BGR | BGRx | BGRA

fun spec_pixel_format_code :: "spec_pixel_format \<Rightarrow> int" where
  "spec_pixel_format_code Unknown = 0"
| "spec_pixel_format_code Gray = 1"
| "spec_pixel_format_code BGR = 2"
| "spec_pixel_format_code BGRx = 3"
| "spec_pixel_format_code BGRA = 4"

definition spec_pixel_formats :: "spec_pixel_format list" where
  "spec_pixel_formats = [Unknown, Gray, BGR, BGRx, BGRA]"

subsection \<open>Integer types under a data model\<close>

text \<open>
  The header fixes the types, the platform's data model fixes their widths. The
  interval of integers a type represents: two's complement for the signed types,
  \<open>0 .. 2 ^ bits - 1\<close> for the unsigned ones; no interval for a type that is not an
  integer type.
\<close>

record data_model =
  char_signed :: bool
  int_bits :: nat
  long_bits :: nat
  size_t_bits :: nat

definition signed_range :: "nat \<Rightarrow> int \<times> int" where
  "signed_range b = (- (2 ^ (b - 1)), 2 ^ (b - 1) - 1)"

definition unsigned_range :: "nat \<Rightarrow> int \<times> int" where
  "unsigned_range b = (0, 2 ^ b - 1)"

fun int_range :: "data_model \<Rightarrow> c_type \<Rightarrow> (int \<times> int) option" where
  "int_range dm CChar = Some (if char_signed dm then signed_range 8 else unsigned_range 8)"
| "int_range dm CInt = Some (signed_range (int_bits dm))"
| "int_range dm CUnsignedInt = Some (unsigned_range (int_bits dm))"
| "int_range dm CUnsignedLong = Some (unsigned_range (long_bits dm))"
| "int_range dm CSizeT = Some (unsigned_range (size_t_bits dm))"
| "int_range dm (CConst t) = int_range dm t"
| "int_range dm _ = None"

definition representable :: "data_model \<Rightarrow> c_type \<Rightarrow> int \<Rightarrow> bool" where
  "representable dm t v =
     (case int_range dm (resolve t) of
        None \<Rightarrow> False
      | Some (lo, hi) \<Rightarrow> lo \<le> v \<and> v \<le> hi)"

text \<open>Whether an integer can be passed for a parameter, or come back as a result.\<close>

definition param_representable :: "data_model \<Rightarrow> string \<Rightarrow> string \<Rightarrow> int \<Rightarrow> bool" where
  "param_representable dm f x v =
     (case param_type f x of None \<Rightarrow> False | Some t \<Rightarrow> representable dm t v)"

definition return_representable :: "data_model \<Rightarrow> string \<Rightarrow> int \<Rightarrow> bool" where
  "return_representable dm f v =
     (case return_type f of None \<Rightarrow> False | Some t \<Rightarrow> representable dm t v)"

text \<open>The 64-bit data model of the platforms the package is built for (LP64).\<close>

definition lp64 :: data_model where
  "lp64 = \<lparr>char_signed = True, int_bits = 32, long_bits = 64, size_t_bits = 64\<rparr>"

section \<open>Properties of the declared interface\<close>

subsection \<open>Lookups\<close>

lemma enumerators_bitmap_format:
  "enumerators bitmap_format_enum =
     [(''FPDFBitmap_Unknown'', 0), (''FPDFBitmap_Gray'', 1), (''FPDFBitmap_BGR'', 2),
      (''FPDFBitmap_BGRx'', 3), (''FPDFBitmap_BGRA'', 4)]"
  by (simp add: enumerators_def bitmap_format_enum_def)

lemma enumerators_render_flag:
  "enumerators render_flag_enum = [(''FPDF_ANNOT'', 1)]"
  by (simp add: enumerators_def render_flag_enum_def)

lemma spec_pixel_format_UNIV: "(UNIV :: spec_pixel_format set) = set spec_pixel_formats"
proof -
  have "x \<in> set spec_pixel_formats" for x
    by (cases x) (simp_all add: spec_pixel_formats_def)
  then show ?thesis by blast
qed

lemma type_LoadMemDocument64_size:
  "param_type ''FPDF_LoadMemDocument64'' ''size'' = Some CSizeT"
  by (simp add: param_type_def find_prototype_def fpdfview_prototypes_def resolve_def)

lemma type_GetPageCount_ret: "return_type ''FPDF_GetPageCount'' = Some CInt"
  by (simp add: return_type_def find_prototype_def fpdfview_prototypes_def resolve_def)

lemma type_LoadPage_page_index: "param_type ''FPDF_LoadPage'' ''page_index'' = Some CInt"
  by (simp add: param_type_def find_prototype_def fpdfview_prototypes_def resolve_def)

lemma type_CreateEx_ints:
  "param_type ''FPDFBitmap_CreateEx'' ''width'' = Some CInt"
  "param_type ''FPDFBitmap_CreateEx'' ''height'' = Some CInt"
  "param_type ''FPDFBitmap_CreateEx'' ''stride'' = Some CInt"
  by (simp_all add: param_type_def find_prototype_def fpdfview_prototypes_def resolve_def)

subsection \<open>Ranges\<close>

lemma representable_CInt:
  "int_bits dm = 32 \<Longrightarrow> representable dm CInt v \<longleftrightarrow> - (2 ^ 31) \<le> v \<and> v \<le> 2 ^ 31 - 1"
  by (simp add: representable_def resolve_def signed_range_def)

lemma representable_CSizeT:
  "representable dm CSizeT v \<longleftrightarrow> 0 \<le> v \<and> v \<le> 2 ^ size_t_bits dm - 1"
  by (simp add: representable_def resolve_def unsigned_range_def)

lemma pow31_le: "32 \<le> n \<Longrightarrow> (2::int) ^ 31 \<le> 2 ^ n - 1"
proof -
  assume "32 \<le> n"
  then have "(2::int) ^ 32 \<le> 2 ^ n" by (intro power_increasing) simp_all
  then show ?thesis by simp
qed

subsection \<open>The enumerations\<close>

text \<open>
  C8. The pixel-format enumeration of the header declares exactly five enumerators,
  with the values Unknown = 0, Gray = 1, BGR = 2, BGRx = 3 and BGRA = 4: in the
  header's order they carry the codes of the specification's closed enumeration, and
  the set of their values is the set of all codes of that enumeration.
\<close>

theorem C8_pixel_format_enum:
  "enumerators bitmap_format_enum =
     zip [''FPDFBitmap_Unknown'', ''FPDFBitmap_Gray'', ''FPDFBitmap_BGR'',
          ''FPDFBitmap_BGRx'', ''FPDFBitmap_BGRA'']
         (map spec_pixel_format_code spec_pixel_formats)
   \<and> map snd (enumerators bitmap_format_enum) = [0, 1, 2, 3, 4]
   \<and> enum_value bitmap_format_enum ''FPDFBitmap_Unknown'' = Some 0
   \<and> enum_value bitmap_format_enum ''FPDFBitmap_Gray'' = Some 1
   \<and> enum_value bitmap_format_enum ''FPDFBitmap_BGR'' = Some 2
   \<and> enum_value bitmap_format_enum ''FPDFBitmap_BGRx'' = Some 3
   \<and> enum_value bitmap_format_enum ''FPDFBitmap_BGRA'' = Some 4
   \<and> set (map snd (enumerators bitmap_format_enum)) = spec_pixel_format_code ` UNIV"
  unfolding spec_pixel_format_UNIV
  by (simp add: enum_value_def enumerators_bitmap_format spec_pixel_formats_def)

text \<open>
  C9. The render-flags enumeration of the header defines the annotation-rendering
  option \<^verbatim>\<open>FPDF_ANNOT\<close> as the value \<open>0x01\<close>, and nothing else.
\<close>

theorem C9_FPDF_ANNOT:
  "enumerators render_flag_enum = [(''FPDF_ANNOT'', 0x01)]
   \<and> enum_value render_flag_enum ''FPDF_ANNOT'' = Some 0x01"
  by (simp add: enum_value_def enumerators_render_flag)

subsection \<open>The integer types of the interface\<close>

text \<open>
  C10. The byte count \<^verbatim>\<open>size\<close> of \<^verbatim>\<open>FPDF_LoadMemDocument64\<close> is declared
  \<^verbatim>\<open>size_t\<close>, so a count above \<open>2 ^ 31 - 1\<close> can be passed; the page index of
  \<^verbatim>\<open>FPDF_LoadPage\<close>, the result of \<^verbatim>\<open>FPDF_GetPageCount\<close> and the width,
  height and stride of \<^verbatim>\<open>FPDFBitmap_CreateEx\<close> are declared \<^verbatim>\<open>int\<close>, so
  they carry exactly the integers from \<open>- 2 ^ 31\<close> to \<open>2 ^ 31 - 1\<close>. The widths
  come from the data model: \<^verbatim>\<open>int\<close> of 32 bits and \<^verbatim>\<open>size_t\<close> of at least
  32 bits.
\<close>

theorem C10_interface_integer_types:
  assumes "int_bits dm = 32" and "32 \<le> size_t_bits dm"
  shows "param_type ''FPDF_LoadMemDocument64'' ''size'' = Some CSizeT
    \<and> param_representable dm ''FPDF_LoadMemDocument64'' ''size'' (2 ^ 31)
    \<and> return_type ''FPDF_GetPageCount'' = Some CInt
    \<and> param_type ''FPDF_LoadPage'' ''page_index'' = Some CInt
    \<and> param_type ''FPDFBitmap_CreateEx'' ''width'' = Some CInt
    \<and> param_type ''FPDFBitmap_CreateEx'' ''height'' = Some CInt
    \<and> param_type ''FPDFBitmap_CreateEx'' ''stride'' = Some CInt
    \<and> return_representable dm ''FPDF_GetPageCount'' v = (- (2 ^ 31) \<le> v \<and> v \<le> 2 ^ 31 - 1)
    \<and> param_representable dm ''FPDF_LoadPage'' ''page_index'' v = (- (2 ^ 31) \<le> v \<and> v \<le> 2 ^ 31 - 1)
    \<and> param_representable dm ''FPDFBitmap_CreateEx'' ''width'' v = (- (2 ^ 31) \<le> v \<and> v \<le> 2 ^ 31 - 1)
    \<and> param_representable dm ''FPDFBitmap_CreateEx'' ''height'' v = (- (2 ^ 31) \<le> v \<and> v \<le> 2 ^ 31 - 1)
    \<and> param_representable dm ''FPDFBitmap_CreateEx'' ''stride'' v = (- (2 ^ 31) \<le> v \<and> v \<le> 2 ^ 31 - 1)"
  using assms pow31_le [of "size_t_bits dm"]
  by (simp add: param_representable_def return_representable_def
      type_LoadMemDocument64_size type_GetPageCount_ret type_LoadPage_page_index
      type_CreateEx_ints representable_CInt representable_CSizeT)

text \<open>
  Under LP64 the hypotheses hold; there \<open>2 ^ 31\<close> fits the byte count and fits none
  of the \<^verbatim>\<open>int\<close> positions.
\<close>

theorem C10_interface_integer_types_witness:
  "int_bits lp64 = 32 \<and> 32 \<le> size_t_bits lp64
   \<and> param_representable lp64 ''FPDF_LoadMemDocument64'' ''size'' (2 ^ 31)
   \<and> \<not> return_representable lp64 ''FPDF_GetPageCount'' (2 ^ 31)
   \<and> \<not> param_representable lp64 ''FPDF_LoadPage'' ''page_index'' (2 ^ 31)
   \<and> \<not> param_representable lp64 ''FPDFBitmap_CreateEx'' ''width'' (2 ^ 31)
   \<and> \<not> param_representable lp64 ''FPDFBitmap_CreateEx'' ''height'' (2 ^ 31)
   \<and> \<not> param_representable lp64 ''FPDFBitmap_CreateEx'' ''stride'' (2 ^ 31)"
proof -
  have h1: "int_bits lp64 = 32" by (simp add: lp64_def)
  have h2: "32 \<le> size_t_bits lp64" by (simp add: lp64_def)
  show ?thesis
    using h1 h2 C10_interface_integer_types [OF h1 h2, of "2 ^ 31"] by simp
qed

end
